theory Spec2Isabelle
  imports Complex_Main "HOL-Library.Sublist"
begin

section \<open>Brevify: the summarizer backend (app.py)\<close>

text \<open>
  A shallow embedding of \<^verbatim>\<open>src/app.py\<close>: the prompt builder \<^verbatim>\<open>construct_prompt\<close> and the
  request handler \<^verbatim>\<open>summarize\<close> of the \<^verbatim>\<open>/summarize\<close> route.

  Python strings are modelled by \<^typ>\<open>string\<close>, each \<^typ>\<open>char\<close> read as one code point in the
  range U+0000 to U+00FF, so that \<^const>\<open>length\<close> is Python's \<^verbatim>\<open>len\<close> on such strings.
  Texts with code points beyond U+00FF are outside the model.
\<close>

subsection \<open>Python string methods\<close>

text \<open>
  \<^verbatim>\<open>str.strip()\<close> removes leading and trailing whitespace. Below U+0100 Python's whitespace
  characters are U+0009 to U+000D, U+001C to U+0020, U+0085 and U+00A0.
\<close>

definition py_isspace :: "char \<Rightarrow> bool" where
  "py_isspace c =
     (let n = (of_char c :: nat)
      in (9 \<le> n \<and> n \<le> 13) \<or> (28 \<le> n \<and> n \<le> 32) \<or> n = 133 \<or> n = 160)"

definition strip :: "string \<Rightarrow> string" where
  "strip s = rev (dropWhile py_isspace (rev (dropWhile py_isspace s)))"

text \<open>
  \<^verbatim>\<open>str.lower()\<close>: below U+0100 the upper-case letters are A to Z and U+00C0 to U+00DE
  without the multiplication sign U+00D7; each has its lower-case letter 32 code points above.
\<close>

definition lower_char :: "char \<Rightarrow> char" where
  "lower_char c =
     (let n = (of_char c :: nat)
      in if (65 \<le> n \<and> n \<le> 90) \<or> (192 \<le> n \<and> n \<le> 222 \<and> n \<noteq> 215)
         then char_of (n + 32) else c)"

definition lower :: "string \<Rightarrow> string" where
  "lower s = map lower_char s"

subsection \<open>The prompt builder\<close>

text \<open>
  \<^verbatim>\<open>length_specs\<close> is the dictionary of length instructions; \<^verbatim>\<open>d.get(k, default)\<close> on a
  dictionary is \<open>dict_get\<close>.
\<close>

definition length_specs :: "(string \<times> string) list" where
  "length_specs =
     [(''short'', ''2-3 sentences (50-75 words)''),
      (''medium'', ''4-6 sentences (100-150 words)''),
      (''long'', ''7-10 sentences (200-250 words)'')]"

definition dict_get :: "('k \<times> 'v) list \<Rightarrow> 'k \<Rightarrow> 'v \<Rightarrow> 'v" where
  "dict_get d k dflt = (case map_of d k of Some v \<Rightarrow> v | None \<Rightarrow> dflt)"

text \<open>
  The five f-string templates, one literal for each source line; \<open>{length_instruction}\<close> and
  \<open>{text}\<close> are the two interpolated values.
\<close>

definition paragraph_template :: "string \<Rightarrow> string \<Rightarrow> string" where
  \<open>paragraph_template text length_instruction =
     ''You are a professional text summarizer with expertise in condensing complex information.\<newline>'' @
     ''\<newline>'' @
     ''Task: Summarize the following text into a single, coherent paragraph.\<newline>'' @
     ''\<newline>'' @
     ''Length requirement: '' @
     length_instruction @
     ''\<newline>'' @
     ''\<newline>'' @
     ''Guidelines:\<newline>'' @
     ''- Maintain the core message and key points\<newline>'' @
     ''- Use clear, professional language\<newline>'' @
     ''- Ensure logical flow and coherence\<newline>'' @
     ''- Do NOT use bullet points or lists\<newline>'' @
     ''- Write in complete sentences with smooth transitions\<newline>'' @
     ''\<newline>'' @
     ''Text to summarize:\<newline>'' @
     ''"""\<newline>'' @
     text @
     ''\<newline>'' @
     ''"""\<newline>'' @
     ''\<newline>'' @
     ''Provide only the summary paragraph, nothing else.''\<close>

definition bullets_template :: "string \<Rightarrow> string \<Rightarrow> string" where
  \<open>bullets_template text length_instruction =
     ''You are an expert at extracting and organizing key information from text.\<newline>'' @
     ''\<newline>'' @
     ''Task: Extract the main points from the following text and present them as a clear bullet-point list.\<newline>'' @
     ''\<newline>'' @
     ''Length requirement: '' @
     length_instruction @
     '' (distributed across bullet points)\<newline>'' @
     ''\<newline>'' @
     ''Guidelines:\<newline>'' @
     ''- Start each bullet with a dash (-)\<newline>'' @
     ''- Each point should be concise and self-contained\<newline>'' @
     ''- Use parallel grammatical structure\<newline>'' @
     ''- Focus on actionable insights and key facts\<newline>'' @
     ''- Order points by importance (most important first)\<newline>'' @
     ''\<newline>'' @
     ''Text to analyze:\<newline>'' @
     ''"""\<newline>'' @
     text @
     ''\<newline>'' @
     ''"""\<newline>'' @
     ''\<newline>'' @
     ''Provide only the bullet-point list, nothing else.''\<close>

definition eli5_template :: "string \<Rightarrow> string \<Rightarrow> string" where
  \<open>eli5_template text length_instruction =
     ''You are a patient teacher who explains complex topics to 5-year-old children using simple language and relatable examples.\<newline>'' @
     ''\<newline>'' @
     ''Task: Explain the following text as if you're talking to a 5-year-old child.\<newline>'' @
     ''\<newline>'' @
     ''Length requirement: '' @
     length_instruction @
     ''\<newline>'' @
     ''\<newline>'' @
     ''Guidelines:\<newline>'' @
     ''- Use VERY simple words (avoid jargon completely)\<newline>'' @
     ''- Use everyday analogies and examples\<newline>'' @
     ''- Break down complex ideas into small, digestible pieces\<newline>'' @
     ''- Be warm and encouraging in tone\<newline>'' @
     ''- Avoid technical terms unless absolutely necessary (and explain them simply)\<newline>'' @
     ''\<newline>'' @
     ''Text to explain:\<newline>'' @
     ''"""\<newline>'' @
     text @
     ''\<newline>'' @
     ''"""\<newline>'' @
     ''\<newline>'' @
     ''Provide only the ELI5 explanation, nothing else.''\<close>

definition questions_template :: "string \<Rightarrow> string" where
  \<open>questions_template text =
     ''You are a critical analyst who identifies the core questions that a piece of text addresses.\<newline>'' @
     ''\<newline>'' @
     ''Task: Analyze the following text and generate 3-5 key questions that this text answers or addresses.\<newline>'' @
     ''\<newline>'' @
     ''Guidelines:\<newline>'' @
     ''- Each question should be clear, specific, and insightful\<newline>'' @
     ''- Questions should capture the main themes and arguments\<newline>'' @
     ''- Use proper question format (Who/What/Where/When/Why/How)\<newline>'' @
     ''- Number each question (1., 2., 3., etc.)\<newline>'' @
     ''- Questions should be standalone (understandable without reading the text)\<newline>'' @
     ''- Prioritize questions by importance\<newline>'' @
     ''\<newline>'' @
     ''Text to analyze:\<newline>'' @
     ''"""\<newline>'' @
     text @
     ''\<newline>'' @
     ''"""\<newline>'' @
     ''\<newline>'' @
     ''Provide only the numbered list of questions, nothing else.''\<close>

definition seo_template :: "string \<Rightarrow> string" where
  \<open>seo_template text =
     ''You are an expert SEO copywriter specializing in meta descriptions for web content.\<newline>'' @
     ''\<newline>'' @
     ''Task: Create a compelling SEO meta description for the following text.\<newline>'' @
     ''\<newline>'' @
     ''CRITICAL Requirements:\<newline>'' @
     ''- Maximum length: 155 characters (STRICT LIMIT)\<newline>'' @
     ''- Include relevant keywords naturally\<newline>'' @
     ''- Make it engaging and click-worthy\<newline>'' @
     ''- Accurately represent the content\<newline>'' @
     ''- Use active voice\<newline>'' @
     ''- End with a call-to-action or value proposition when possible\<newline>'' @
     ''\<newline>'' @
     ''Text to summarize:\<newline>'' @
     ''"""\<newline>'' @
     text @
     ''\<newline>'' @
     ''"""\<newline>'' @
     ''\<newline>'' @
     ''Provide ONLY the meta description (150-155 characters max), nothing else. No explanations or additional text.''\<close>

text \<open>
  \<^verbatim>\<open>construct_prompt(text, mode, length)\<close>. The last branch is the source's recursive call
  with the mode forced to \<^verbatim>\<open>'paragraph'\<close>; \<^verbatim>\<open>length_specs['medium']\<close> is the default of
  the lookup (the key is in the table, see \<open>length_specs_medium\<close> below).
\<close>

function construct_prompt :: "string \<Rightarrow> string \<Rightarrow> string \<Rightarrow> string" where
  "construct_prompt text mode len =
     (let length_instruction = dict_get length_specs len (the (map_of length_specs ''medium''))
      in if mode = ''paragraph'' then paragraph_template text length_instruction
         else if mode = ''bullets'' then bullets_template text length_instruction
         else if mode = ''eli5'' then eli5_template text length_instruction
         else if mode = ''questions'' then questions_template text
         else if mode = ''seo'' then seo_template text
         else construct_prompt text ''paragraph'' len)"
  by pat_completeness auto

termination
  by (relation "measure (\<lambda>(t, m, l). if m = ''paragraph'' then 0 else 1)") auto

declare construct_prompt.simps [simp del]

subsection \<open>Request bodies and Python values\<close>

text \<open>
  The value that \<^verbatim>\<open>request.get_json()\<close> returns: \<open>JNull\<close> is Python's \<^verbatim>\<open>None\<close>, an object
  is a \<^verbatim>\<open>dict\<close> given by its items (a key is looked up with \<^const>\<open>map_of\<close>), a number is an
  \<^verbatim>\<open>int\<close> or a \<^verbatim>\<open>float\<close>. Of a float the handler only tests whether it is zero.
\<close>

datatype pyfloat = Finite rat | PosInf | NegInf | NaN

datatype json =
    JNull
  | JBool bool
  | JInt int
  | JFloat pyfloat
  | JStr string
  | JArr "json list"
  | JObj "(string \<times> json) list"

text \<open>\<^verbatim>\<open>not data\<close> is \<open>\<not> truthy data\<close>.\<close>

fun truthy :: "json \<Rightarrow> bool" where
  "truthy JNull = False"
| "truthy (JBool b) = b"
| "truthy (JInt n) = (n \<noteq> 0)"
| "truthy (JFloat f) = (f \<noteq> Finite 0)"
| "truthy (JStr s) = (s \<noteq> [])"
| "truthy (JArr xs) = (xs \<noteq> [])"
| "truthy (JObj kvs) = (kvs \<noteq> [])"

fun type_name :: "json \<Rightarrow> string" where
  "type_name JNull = ''NoneType''"
| "type_name (JBool b) = ''bool''"
| "type_name (JInt n) = ''int''"
| "type_name (JFloat f) = ''float''"
| "type_name (JStr s) = ''str''"
| "type_name (JArr xs) = ''list''"
| "type_name (JObj kvs) = ''dict''"

text \<open>
  An exception is modelled by its description \<^verbatim>\<open>str(e)\<close>, the only thing the handler reads
  of it; a computation that may raise returns \<open>Inl\<close> of the description or \<open>Inr\<close> of its value.
  Calling a method that a value does not have raises \<^verbatim>\<open>AttributeError\<close>.
\<close>

type_synonym exn = string

definition attribute_error :: "json \<Rightarrow> string \<Rightarrow> exn" where
  "attribute_error v attr =
     [CHR 0x27] @ type_name v @ [CHR 0x27] @ '' object has no attribute '' @
     [CHR 0x27] @ attr @ [CHR 0x27]"

fun bind_exn :: "exn + 'a \<Rightarrow> ('a \<Rightarrow> exn + 'b) \<Rightarrow> exn + 'b" where
  "bind_exn (Inl e) f = Inl e"
| "bind_exn (Inr x) f = f x"

text \<open>\<^verbatim>\<open>v.get(key, default)\<close>, \<^verbatim>\<open>v.strip()\<close> and \<^verbatim>\<open>v.lower()\<close> on a value of any type.\<close>

fun py_get :: "json \<Rightarrow> string \<Rightarrow> json \<Rightarrow> exn + json" where
  "py_get (JObj kvs) key dflt = Inr (dict_get kvs key dflt)"
| "py_get v key dflt = Inl (attribute_error v ''get'')"

fun py_strip :: "json \<Rightarrow> exn + string" where
  "py_strip (JStr s) = Inr (strip s)"
| "py_strip v = Inl (attribute_error v ''strip'')"

fun py_lower :: "json \<Rightarrow> exn + string" where
  "py_lower (JStr s) = Inr (lower s)"
| "py_lower v = Inl (attribute_error v ''lower'')"

subsection \<open>The request handler\<close>

text \<open>
  A response is the pair that the handler returns: the JSON object given to \<^verbatim>\<open>jsonify\<close>
  (all its values are strings) and the HTTP status. The handler's effects are recorded in
  the order they happen: the call of the prompt builder, the call of the generation
  service with the prompt, and the line printed by the \<^verbatim>\<open>except\<close> block.
\<close>

type_synonym response = "(string \<times> string) list \<times> nat"

datatype event =
    Construct_Prompt string string string
  | Generate_Content string
  | Print string

text \<open>
  The two things the handler gets from outside are parameters of the model:
  \<^item> \<open>get_json\<close>, the outcome of Flask's \<^verbatim>\<open>request.get_json()\<close>: the parsed body, or the
    exception it raises (with its default arguments it raises for a body that is not
    parseable JSON);
  \<^item> \<open>generate_content\<close>, the generation service called with the prompt (the model name
    and the generation configuration are constants of the call): it raises, or returns a
    response whose \<^verbatim>\<open>text\<close> is a string or \<^verbatim>\<open>None\<close>.

  \<open>summarize_try\<close> is the body of the \<^verbatim>\<open>try\<close> block, \<open>summarize\<close> the handler with its
  \<^verbatim>\<open>except Exception\<close> block.
\<close>

definition valid_modes :: "string list" where
  "valid_modes = [''paragraph'', ''bullets'', ''eli5'', ''questions'', ''seo'']"

definition valid_lengths :: "string list" where
  "valid_lengths = [''short'', ''medium'', ''long'']"

definition error_response :: "string \<Rightarrow> nat \<Rightarrow> response" where
  "error_response msg code = ([(''error'', msg)], code)"

definition read_fields :: "json \<Rightarrow> exn + (string \<times> string \<times> string)" where
  "read_fields data =
     bind_exn (bind_exn (py_get data ''text'' (JStr [])) py_strip) (\<lambda>text.
     bind_exn (bind_exn (py_get data ''mode'' (JStr ''paragraph'')) py_lower) (\<lambda>mode.
     bind_exn (bind_exn (py_get data ''length'' (JStr ''medium'')) py_lower) (\<lambda>len.
     Inr (text, mode, len))))"

definition call_service ::
  "(string \<Rightarrow> exn + string option) \<Rightarrow> string \<Rightarrow> string \<Rightarrow> string \<Rightarrow> (exn + response) \<times> event list" where
  "call_service generate_content text mode len =
     (let prompt = construct_prompt text mode len;
          events = [Construct_Prompt text mode len, Generate_Content prompt]
      in case generate_content prompt of
           Inl e \<Rightarrow> (Inl e, events)
         | Inr response_text \<Rightarrow>
             (case response_text of
                None \<Rightarrow> (Inl (attribute_error JNull ''strip''), events)
              | Some s \<Rightarrow>
                  (Inr ([(''summary'', strip s), (''mode'', mode), (''length'', len)], 200),
                   events)))"

definition summarize_try ::
  "exn + json \<Rightarrow> (string \<Rightarrow> exn + string option) \<Rightarrow> (exn + response) \<times> event list" where
  "summarize_try get_json generate_content =
     (case get_json of
        Inl e \<Rightarrow> (Inl e, [])
      | Inr data \<Rightarrow>
          if \<not> truthy data then (Inr (error_response ''No data provided'' 400), [])
          else
            (case read_fields data of
               Inl e \<Rightarrow> (Inl e, [])
             | Inr (text, mode, len) \<Rightarrow>
                 if text = [] then
                   (Inr (error_response ''Text field is required'' 400), [])
                 else if length text < 50 then
                   (Inr (error_response ''Text must be at least 50 characters long'' 400), [])
                 else if mode \<notin> set valid_modes then
                   (Inr (error_response ''Invalid mode specified'' 400), [])
                 else if len \<notin> set valid_lengths then
                   (Inr (error_response ''Invalid length specified'' 400), [])
                 else call_service generate_content text mode len))"

definition summarize ::
  "exn + json \<Rightarrow> (string \<Rightarrow> exn + string option) \<Rightarrow> response \<times> event list" where
  "summarize get_json generate_content =
     (case summarize_try get_json generate_content of
        (Inr r, events) \<Rightarrow> (r, events)
      | (Inl e, events) \<Rightarrow>
          (error_response (''An error occurred while generating the summary: '' @ e) 500,
           events @ [Print (''Error in /summarize endpoint: '' @ e)]))"

subsection \<open>Values used in the examples\<close>

text \<open>
  \<open>is_str v\<close> is \<^verbatim>\<open>isinstance(v, str)\<close>. The two services are stand-ins for the
  generation service: one that answers every prompt, one that fails on every prompt and
  one whose response has no text.
  \<open>fifty_chars\<close> is a text of exactly 50 characters.
\<close>

fun is_str :: "json \<Rightarrow> bool" where
  "is_str (JStr s) = True"
| "is_str v = False"

definition answering_service :: "string \<Rightarrow> exn + string option" where
  "answering_service prompt = Inr (Some '' A fox jumps over a dog. '')"

definition failing_service :: "string \<Rightarrow> exn + string option" where
  "failing_service prompt = Inl ''503 UNAVAILABLE''"

definition silent_service :: "string \<Rightarrow> exn + string option" where
  "silent_service prompt = Inr None"

definition fifty_chars :: string where
  "fifty_chars = ''The quick brown fox jumps over the lazy dog today.''"

section \<open>Properties of the prompt builder\<close>

subsection \<open>Unfolding the builder once\<close>

lemma length_specs_medium: "map_of length_specs ''medium'' = Some ''4-6 sentences (100-150 words)''"
  by (simp add: length_specs_def)

lemma construct_prompt_fallback:
  "mode \<noteq> ''paragraph'' \<Longrightarrow> mode \<noteq> ''bullets'' \<Longrightarrow> mode \<noteq> ''eli5'' \<Longrightarrow> mode \<noteq> ''questions'' \<Longrightarrow> mode \<noteq> ''seo''
   \<Longrightarrow> construct_prompt text mode len = construct_prompt text ''paragraph'' len"
  by (subst construct_prompt.simps) (simp add: Let_def)

lemma construct_prompt_paragraph:
  "construct_prompt text ''paragraph'' len =
     paragraph_template text (dict_get length_specs len ''4-6 sentences (100-150 words)'')"
  by (subst construct_prompt.simps) (simp add: Let_def length_specs_medium)

lemma construct_prompt_bullets:
  "construct_prompt text ''bullets'' len =
     bullets_template text (dict_get length_specs len ''4-6 sentences (100-150 words)'')"
  by (subst construct_prompt.simps) (simp add: Let_def length_specs_medium)

lemma construct_prompt_eli5:
  "construct_prompt text ''eli5'' len =
     eli5_template text (dict_get length_specs len ''4-6 sentences (100-150 words)'')"
  by (subst construct_prompt.simps) (simp add: Let_def length_specs_medium)

lemma construct_prompt_questions:
  "construct_prompt text ''questions'' len = questions_template text"
  by (subst construct_prompt.simps) (simp add: Let_def)

lemma construct_prompt_seo:
  "construct_prompt text ''seo'' len = seo_template text"
  by (subst construct_prompt.simps) (simp add: Let_def)

lemma sublist_appendL: "sublist xs ys \<Longrightarrow> sublist xs (zs @ ys)"
proof -
  assume "sublist xs ys"
  then obtain ps ss where "ys = ps @ xs @ ss"
    by (auto simp: sublist_def)
  then have "zs @ ys = (zs @ ps) @ xs @ ss"
    by simp
  then show ?thesis
    unfolding sublist_def by blast
qed

lemma sublist_appendR: "sublist xs ys \<Longrightarrow> sublist xs (ys @ zs)"
proof -
  assume "sublist xs ys"
  then obtain ps ss where "ys = ps @ xs @ ss"
    by (auto simp: sublist_def)
  then have "ys @ zs = ps @ xs @ (ss @ zs)"
    by simp
  then show ?thesis
    unfolding sublist_def by blast
qed

lemma text_in_paragraph: "sublist text (paragraph_template text li)"
  unfolding paragraph_template_def
  by (fast intro: sublist_appendL)

lemma text_in_bullets: "sublist text (bullets_template text li)"
  unfolding bullets_template_def
  by (fast intro: sublist_appendL)

lemma text_in_eli5: "sublist text (eli5_template text li)"
  unfolding eli5_template_def
  by (fast intro: sublist_appendL)

lemma text_in_questions: "sublist text (questions_template text)"
  unfolding questions_template_def
  by (fast intro: sublist_appendL)

lemma text_in_seo: "sublist text (seo_template text)"
  unfolding seo_template_def
  by (fast intro: sublist_appendL)

lemma bullets_line:
  "sublist ''bullet-point''
     ''Task: Extract the main points from the following text and present them as a clear bullet-point list.\<newline>''"
  by code_simp

lemma eli5_line:
  "sublist ''5-year-old''
     ''You are a patient teacher who explains complex topics to 5-year-old children using simple language and relatable examples.\<newline>''"
  by code_simp

lemma seo_line:
  "sublist ''155 characters'' ''- Maximum length: 155 characters (STRICT LIMIT)\<newline>''"
  by code_simp

lemma keyword_in_bullets: "sublist ''bullet-point'' (bullets_template text li)"
  unfolding bullets_template_def
  by (fast intro: sublist_appendL sublist_appendR bullets_line)

lemma keyword_in_eli5: "sublist ''5-year-old'' (eli5_template text li)"
  unfolding eli5_template_def
  by (fast intro: sublist_appendL sublist_appendR eli5_line)

lemma keyword_in_seo: "sublist ''155 characters'' (seo_template text)"
  unfolding seo_template_def
  by (fast intro: sublist_appendL sublist_appendR seo_line)

lemma paragraph_nonempty: "paragraph_template text li \<noteq> []"
  by (simp add: paragraph_template_def)
lemma bullets_nonempty: "bullets_template text li \<noteq> []"
  by (simp add: bullets_template_def)
lemma eli5_nonempty: "eli5_template text li \<noteq> []"
  by (simp add: eli5_template_def)
lemma questions_nonempty: "questions_template text \<noteq> []"
  by (simp add: questions_template_def)
lemma seo_nonempty: "seo_template text \<noteq> []"
  by (simp add: seo_template_def)

subsection \<open>The claims about the prompt builder\<close>

text \<open>
  Claim C2. For every text, every length and every mode that is none of \<^verbatim>\<open>paragraph\<close>,
  \<^verbatim>\<open>bullets\<close>, \<^verbatim>\<open>eli5\<close>, \<^verbatim>\<open>questions\<close>, \<^verbatim>\<open>seo\<close>, the prompt builder returns exactly
  the string it returns for mode \<^verbatim>\<open>paragraph\<close> with the same text and the same length. The
  builder is a total function into strings, so the fallback is a value and not an error.
\<close>

theorem unknown_mode_falls_back_to_paragraph:
  assumes "mode \<notin> {''paragraph'', ''bullets'', ''eli5'', ''questions'', ''seo''}"
  shows "construct_prompt text mode len = construct_prompt text ''paragraph'' len"
  using assms by (simp add: construct_prompt_fallback)

theorem unknown_mode_falls_back_to_paragraph_witness:
  "''haiku'' \<notin> {''paragraph'', ''bullets'', ''eli5'', ''questions'', ''seo''} \<and>
   construct_prompt fifty_chars ''haiku'' ''long'' = construct_prompt fifty_chars ''paragraph'' ''long''"
  using unknown_mode_falls_back_to_paragraph [of "''haiku''" fifty_chars "''long''"] by simp

text \<open>
  Claim C5. For every text and every two length values, the prompt builder with mode
  \<^verbatim>\<open>questions\<close> returns the same string: the template of that mode does not use the length
  instruction.
\<close>

theorem questions_prompt_ignores_length:
  "construct_prompt text ''questions'' len1 = construct_prompt text ''questions'' len2"
  by (simp add: construct_prompt_questions)

text \<open>
  Claim C4. For each of the five valid modes and each of the three valid lengths, the
  prompt is a non-empty string that contains the input text verbatim (as a contiguous
  substring), and contains \<^verbatim>\<open>bullet-point\<close> for mode \<^verbatim>\<open>bullets\<close>, \<^verbatim>\<open>5-year-old\<close> for mode
  \<^verbatim>\<open>eli5\<close> and \<^verbatim>\<open>155 characters\<close> for mode \<^verbatim>\<open>seo\<close>.
\<close>

theorem prompt_contains_text_and_keywords:
  assumes "mode \<in> set valid_modes" and "len \<in> set valid_lengths"
  shows "construct_prompt text mode len \<noteq> [] \<and>
         sublist text (construct_prompt text mode len) \<and>
         (mode = ''bullets'' \<longrightarrow> sublist ''bullet-point'' (construct_prompt text mode len)) \<and>
         (mode = ''eli5'' \<longrightarrow> sublist ''5-year-old'' (construct_prompt text mode len)) \<and>
         (mode = ''seo'' \<longrightarrow> sublist ''155 characters'' (construct_prompt text mode len))"
proof -
  from assms(1) consider "mode = ''paragraph''" | "mode = ''bullets''" | "mode = ''eli5''"
    | "mode = ''questions''" | "mode = ''seo''"
    by (auto simp: valid_modes_def)
  then show ?thesis
  proof cases
    case 1
    then show ?thesis
      by (simp add: construct_prompt_paragraph paragraph_nonempty text_in_paragraph)
  next
    case 2
    then show ?thesis
      by (simp add: construct_prompt_bullets bullets_nonempty text_in_bullets keyword_in_bullets)
  next
    case 3
    then show ?thesis
      by (simp add: construct_prompt_eli5 eli5_nonempty text_in_eli5 keyword_in_eli5)
  next
    case 4
    then show ?thesis
      by (simp add: construct_prompt_questions questions_nonempty text_in_questions)
  next
    case 5
    then show ?thesis
      by (simp add: construct_prompt_seo seo_nonempty text_in_seo keyword_in_seo)
  qed
qed

theorem prompt_contains_text_and_keywords_witness:
  "''seo'' \<in> set valid_modes \<and> ''short'' \<in> set valid_lengths \<and>
   construct_prompt fifty_chars ''seo'' ''short'' \<noteq> [] \<and>
   sublist fifty_chars (construct_prompt fifty_chars ''seo'' ''short'') \<and>
   sublist ''155 characters'' (construct_prompt fifty_chars ''seo'' ''short'')"
proof -
  have m: "''seo'' \<in> set valid_modes" by (simp add: valid_modes_def)
  have l: "''short'' \<in> set valid_lengths" by (simp add: valid_lengths_def)
  show ?thesis
    using m l prompt_contains_text_and_keywords [OF m l, of fifty_chars] by simp
qed

section \<open>Properties of the request handler\<close>

subsection \<open>The handler by cases\<close>

lemma is_str_iff: "is_str v \<longleftrightarrow> (\<exists>s. v = JStr s)"
  by (cases v) simp_all

lemma py_strip_not_str: "\<not> is_str v \<Longrightarrow> py_strip v = Inl (attribute_error v ''strip'')"
  by (cases v) simp_all

lemma py_lower_not_str: "\<not> is_str v \<Longrightarrow> py_lower v = Inl (attribute_error v ''lower'')"
  by (cases v) simp_all

lemma strip_Nil: "strip [] = []"
  by (simp add: strip_def)

lemma read_fields_obj:
  "read_fields (JObj kvs) =
     bind_exn (py_strip (dict_get kvs ''text'' (JStr []))) (\<lambda>text.
     bind_exn (py_lower (dict_get kvs ''mode'' (JStr ''paragraph''))) (\<lambda>mode.
     bind_exn (py_lower (dict_get kvs ''length'' (JStr ''medium''))) (\<lambda>len.
     Inr (text, mode, len))))"
  by (simp add: read_fields_def)

lemma read_fields_strings:
  assumes "dict_get kvs ''text'' (JStr []) = JStr t"
    and "dict_get kvs ''mode'' (JStr ''paragraph'') = JStr m"
    and "dict_get kvs ''length'' (JStr ''medium'') = JStr l"
  shows "read_fields (JObj kvs) = Inr (strip t, lower m, lower l)"
  using assms by (simp add: read_fields_obj)

lemma read_fields_raises:
  assumes "\<not> is_str (dict_get kvs ''text'' (JStr [])) \<or>
           \<not> is_str (dict_get kvs ''mode'' (JStr ''paragraph'')) \<or>
           \<not> is_str (dict_get kvs ''length'' (JStr ''medium''))"
  shows "\<exists>e. read_fields (JObj kvs) = Inl e"
proof (cases "is_str (dict_get kvs ''text'' (JStr []))")
  case False
  then show ?thesis
    by (simp add: read_fields_obj py_strip_not_str)
next
  case text_is_str: True
  then obtain t where t: "dict_get kvs ''text'' (JStr []) = JStr t"
    by (auto simp: is_str_iff)
  show ?thesis
  proof (cases "is_str (dict_get kvs ''mode'' (JStr ''paragraph''))")
    case False
    then show ?thesis
      by (simp add: read_fields_obj t py_lower_not_str)
  next
    case True
    then obtain m where m: "dict_get kvs ''mode'' (JStr ''paragraph'') = JStr m"
      by (auto simp: is_str_iff)
    from True text_is_str assms have "\<not> is_str (dict_get kvs ''length'' (JStr ''medium''))"
      by simp
    then show ?thesis
      by (simp add: read_fields_obj t m py_lower_not_str)
  qed
qed

lemma summarize_fields:
  assumes "truthy data" and "read_fields data = Inr (text, mode, len)"
  shows "summarize (Inr data) g =
     (if text = [] then (error_response ''Text field is required'' 400, [])
      else if length text < 50 then
        (error_response ''Text must be at least 50 characters long'' 400, [])
      else if mode \<notin> set valid_modes then (error_response ''Invalid mode specified'' 400, [])
      else if len \<notin> set valid_lengths then
        (error_response ''Invalid length specified'' 400, [])
      else
        (case call_service g text mode len of
           (Inr r, events) \<Rightarrow> (r, events)
         | (Inl e, events) \<Rightarrow>
             (error_response (''An error occurred while generating the summary: '' @ e) 500,
              events @ [Print (''Error in /summarize endpoint: '' @ e)])))"
  using assms by (simp add: summarize_def summarize_try_def)

lemma summarize_raises:
  assumes "truthy data" and "read_fields data = Inl e"
  shows "summarize (Inr data) g =
     (error_response (''An error occurred while generating the summary: '' @ e) 500,
      [Print (''Error in /summarize endpoint: '' @ e)])"
  using assms by (simp add: summarize_def summarize_try_def)

lemma summarize_no_data:
  assumes "\<not> truthy data"
  shows "summarize (Inr data) g = (error_response ''No data provided'' 400, [])"
  using assms by (simp add: summarize_def summarize_try_def)

lemma summarize_get_json_raises:
  "summarize (Inl e) g =
     (error_response (''An error occurred while generating the summary: '' @ e) 500,
      [Print (''Error in /summarize endpoint: '' @ e)])"
  by (simp add: summarize_def summarize_try_def)

lemma call_service_not_short:
  "fst (case call_service g text mode len of
           (Inr r, events) \<Rightarrow> (r, events)
         | (Inl e, events) \<Rightarrow>
             (error_response (''An error occurred while generating the summary: '' @ e) 500,
              events @ [Print (''Error in /summarize endpoint: '' @ e)]))
   \<noteq> error_response ''Text must be at least 50 characters long'' 400"
  by (simp add: call_service_def error_response_def Let_def split: sum.splits option.splits)

lemma dict_get_Some: "map_of kvs k = Some v \<Longrightarrow> dict_get kvs k d = v"
  by (simp add: dict_get_def)

lemma lower_paragraph: "lower ''paragraph'' = ''paragraph''"
  by code_simp

lemma lower_medium: "lower ''medium'' = ''medium''"
  by code_simp

lemma py_lower_field:
  assumes "map_of kvs1 k = map_of kvs2 k \<or>
           (\<exists>s1 s2. map_of kvs1 k = Some (JStr s1) \<and> map_of kvs2 k = Some (JStr s2) \<and>
              lower s1 = lower s2)"
  shows "py_lower (dict_get kvs1 k d) = py_lower (dict_get kvs2 k d)"
  using assms by (auto simp: dict_get_def)

lemma strip_fifty_chars: "strip fifty_chars = fifty_chars"
  by code_simp

lemma length_fifty_chars: "length fifty_chars = 50"
  by code_simp

subsection \<open>The claims about the request handler\<close>

text \<open>
  Claim C1, as amended. Take a request whose body is a JSON object with a string \<^verbatim>\<open>text\<close>,
  and whose \<^verbatim>\<open>mode\<close> and \<^verbatim>\<open>length\<close> are absent or strings. If the trimmed text has at
  least 1 and fewer than 50 characters, the handler answers 400 with the error
  \<^verbatim>\<open>Text must be at least 50 characters long\<close> and has no effect: neither the prompt
  builder nor the generation service is called. If the trimmed text has 50 characters or
  more, the answer is not that error: the bound is inclusive at 50.
\<close>

theorem short_text_is_rejected:
  assumes "map_of kvs ''text'' = Some (JStr t)"
    and "is_str (dict_get kvs ''mode'' (JStr ''paragraph''))"
    and "is_str (dict_get kvs ''length'' (JStr ''medium''))"
  shows "(0 < length (strip t) \<and> length (strip t) < 50 \<longrightarrow>
            summarize (Inr (JObj kvs)) generate_content =
              (error_response ''Text must be at least 50 characters long'' 400, [])) \<and>
         (50 \<le> length (strip t) \<longrightarrow>
            fst (summarize (Inr (JObj kvs)) generate_content) \<noteq>
              error_response ''Text must be at least 50 characters long'' 400)"
proof -
  from assms(2,3) obtain m l
    where m: "dict_get kvs ''mode'' (JStr ''paragraph'') = JStr m"
      and l: "dict_get kvs ''length'' (JStr ''medium'') = JStr l"
    by (auto simp: is_str_iff)
  from assms(1) have t: "dict_get kvs ''text'' (JStr []) = JStr t"
    by (rule dict_get_Some)
  from assms(1) have data: "truthy (JObj kvs)"
    by auto
  have fields: "read_fields (JObj kvs) = Inr (strip t, lower m, lower l)"
    using t m l by (rule read_fields_strings)
  show ?thesis
    using call_service_not_short [of generate_content "strip t" "lower m" "lower l"]
    by (auto simp: summarize_fields [OF data fields] error_response_def)
qed

theorem short_text_is_rejected_witness:
  "length (strip ''  The quick brown fox jumps over the lazy dog today  '') = 49 \<and>
   summarize (Inr (JObj [(''text'', JStr ''  The quick brown fox jumps over the lazy dog today  '')]))
     answering_service =
     (error_response ''Text must be at least 50 characters long'' 400, []) \<and>
   length (strip fifty_chars) = 50 \<and>
   fst (summarize (Inr (JObj [(''text'', JStr fifty_chars)])) answering_service) \<noteq>
     error_response ''Text must be at least 50 characters long'' 400"
proof -
  have n: "length (strip ''  The quick brown fox jumps over the lazy dog today  '') = 49"
    by code_simp
  have short: "summarize
      (Inr (JObj [(''text'', JStr ''  The quick brown fox jumps over the lazy dog today  '')]))
      answering_service = (error_response ''Text must be at least 50 characters long'' 400, [])"
    using n short_text_is_rejected
      [of "[(''text'', JStr ''  The quick brown fox jumps over the lazy dog today  '')]"
        "''  The quick brown fox jumps over the lazy dog today  ''" answering_service]
    by (simp add: dict_get_def)
  have "fst (summarize (Inr (JObj [(''text'', JStr fifty_chars)])) answering_service) \<noteq>
      error_response ''Text must be at least 50 characters long'' 400"
    using short_text_is_rejected [of "[(''text'', JStr fifty_chars)]" fifty_chars answering_service]
    by (simp add: dict_get_def strip_fifty_chars length_fifty_chars)
  with n short show ?thesis
    by (simp add: strip_fifty_chars length_fifty_chars)
qed

text \<open>
  Claim C1, as stated, fails: a text that trims to the empty string has fewer than 50
  characters and is answered with \<^verbatim>\<open>Text field is required\<close>; and a short text sent with
  the number 5 as \<^verbatim>\<open>mode\<close> is answered with status 500, since \<^verbatim>\<open>.lower()\<close> is called on the
  mode before the text is checked.
\<close>

theorem short_text_counterexample:
  "fst (summarize (Inr (JObj [(''text'', JStr ''   '')])) answering_service) =
     error_response ''Text field is required'' 400 \<and>
   fst (summarize (Inr (JObj [(''text'', JStr ''   '')])) answering_service) \<noteq>
     error_response ''Text must be at least 50 characters long'' 400 \<and>
   fst (summarize (Inr (JObj [(''text'', JStr ''Too short.''), (''mode'', JInt 5)]))
     answering_service) =
     error_response (''An error occurred while generating the summary: '' @
       attribute_error (JInt 5) ''lower'') 500 \<and>
   fst (summarize (Inr (JObj [(''text'', JStr ''Too short.''), (''mode'', JInt 5)]))
     answering_service) \<noteq>
     error_response ''Text must be at least 50 characters long'' 400"
  by code_simp

text \<open>
  Claim C3. For every valid request (the body is truthy, its three fields are read
  without an exception, the trimmed text has at least 50 characters, mode and length are
  among the allowed values): if the generation service raises a failure with description
  \<open>e\<close>, the handler answers 500 with the error
  \<^verbatim>\<open>An error occurred while generating the summary: \<close> followed by \<open>e\<close>; the other step
  after validation that can raise, \<^verbatim>\<open>response.text.strip()\<close> on a response without text,
  is answered the same way with the description of its \<^verbatim>\<open>AttributeError\<close>. The handler
  returns a response in both cases: the exception does not leave it.
\<close>

theorem failure_after_validation_gives_500:
  assumes "truthy data"
    and "read_fields data = Inr (text, mode, len)"
    and "50 \<le> length text"
    and "mode \<in> set valid_modes"
    and "len \<in> set valid_lengths"
  shows "(generate_content (construct_prompt text mode len) = Inl e \<longrightarrow>
            fst (summarize (Inr data) generate_content) =
              error_response (''An error occurred while generating the summary: '' @ e) 500) \<and>
         (generate_content (construct_prompt text mode len) = Inr None \<longrightarrow>
            fst (summarize (Inr data) generate_content) =
              error_response (''An error occurred while generating the summary: '' @
                attribute_error JNull ''strip'') 500)"
proof -
  from assms(3) have "text \<noteq> []" and "\<not> length text < 50"
    by auto
  then show ?thesis
    using assms(4,5) by (simp add: summarize_fields [OF assms(1,2)] call_service_def)
qed

theorem failure_after_validation_gives_500_witness:
  "fst (summarize
      (Inr (JObj [(''text'', JStr fifty_chars), (''mode'', JStr ''SEO''),
        (''length'', JStr ''Short'')])) failing_service) =
     error_response ''An error occurred while generating the summary: 503 UNAVAILABLE'' 500 \<and>
   fst (summarize
      (Inr (JObj [(''text'', JStr fifty_chars), (''mode'', JStr ''SEO''),
        (''length'', JStr ''Short'')])) silent_service) =
     error_response (''An error occurred while generating the summary: '' @
       attribute_error JNull ''strip'') 500"
proof -
  let ?data = "JObj [(''text'', JStr fifty_chars), (''mode'', JStr ''SEO''),
    (''length'', JStr ''Short'')]"
  have d: "truthy ?data"
    by simp
  have f: "read_fields ?data = Inr (fifty_chars, ''seo'', ''short'')"
    by code_simp
  have n: "50 \<le> length fifty_chars"
    by (simp add: length_fifty_chars)
  have m: "''seo'' \<in> set valid_modes"
    by (simp add: valid_modes_def)
  have l: "''short'' \<in> set valid_lengths"
    by (simp add: valid_lengths_def)
  show ?thesis
    using failure_after_validation_gives_500 [OF d f n m l, of failing_service "''503 UNAVAILABLE''"]
      failure_after_validation_gives_500 [OF d f n m l, of silent_service]
    by (simp add: failing_service_def silent_service_def)
qed

text \<open>
  Claim C6. For every request whose body is a JSON object with a text of at least 50
  characters after trimming and with no \<^verbatim>\<open>mode\<close> and no \<^verbatim>\<open>length\<close> field, the prompt is built
  for mode \<^verbatim>\<open>paragraph\<close> and length \<^verbatim>\<open>medium\<close>, and when the service returns a text the
  response is 200 with exactly these two values in its \<^verbatim>\<open>mode\<close> and \<^verbatim>\<open>length\<close> fields.
\<close>

theorem defaults_are_applied_and_echoed:
  assumes "map_of kvs ''text'' = Some (JStr t)"
    and "50 \<le> length (strip t)"
    and "map_of kvs ''mode'' = None"
    and "map_of kvs ''length'' = None"
    and "generate_content (construct_prompt (strip t) ''paragraph'' ''medium'') = Inr (Some s)"
  shows "summarize (Inr (JObj kvs)) generate_content =
           (([(''summary'', strip s), (''mode'', ''paragraph''), (''length'', ''medium'')], 200),
            [Construct_Prompt (strip t) ''paragraph'' ''medium'',
             Generate_Content (construct_prompt (strip t) ''paragraph'' ''medium'')])"
proof -
  from assms(1) have data: "truthy (JObj kvs)"
    by auto
  have "read_fields (JObj kvs) = Inr (strip t, lower ''paragraph'', lower ''medium'')"
    using assms(1,3,4) by (intro read_fields_strings) (simp_all add: dict_get_def)
  then have fields: "read_fields (JObj kvs) = Inr (strip t, ''paragraph'', ''medium'')"
    by (simp only: lower_paragraph lower_medium)
  from assms(2) have "strip t \<noteq> []" and "\<not> length (strip t) < 50"
    by auto
  then show ?thesis
    using assms(5)
    by (simp add: summarize_fields [OF data fields] call_service_def valid_modes_def
        valid_lengths_def)
qed

theorem defaults_are_applied_and_echoed_witness:
  "fst (summarize (Inr (JObj [(''text'', JStr fifty_chars)])) answering_service) =
     ([(''summary'', ''A fox jumps over a dog.''), (''mode'', ''paragraph''),
       (''length'', ''medium'')], 200)"
proof -
  have s: "strip '' A fox jumps over a dog. '' = ''A fox jumps over a dog.''"
    by code_simp
  show ?thesis
    using defaults_are_applied_and_echoed
      [of "[(''text'', JStr fifty_chars)]" fifty_chars answering_service
        "'' A fox jumps over a dog. ''"]
    by (simp add: strip_fifty_chars length_fifty_chars answering_service_def s)
qed

text \<open>
  Claim C7, as amended. Whenever \<^verbatim>\<open>request.get_json()\<close> returns \<^verbatim>\<open>None\<close> or another falsy
  value (JSON \<^verbatim>\<open>null\<close>, \<^verbatim>\<open>false\<close>, zero, the empty string, array or object), the handler
  answers 400 with the error \<^verbatim>\<open>No data provided\<close> and has no effect.
\<close>

theorem no_data_is_rejected:
  assumes "\<not> truthy data"
  shows "summarize (Inr data) generate_content = (error_response ''No data provided'' 400, [])"
  using assms by (rule summarize_no_data)

theorem no_data_is_rejected_witness:
  "\<not> truthy JNull \<and>
   summarize (Inr JNull) answering_service = (error_response ''No data provided'' 400, [])"
  using no_data_is_rejected [of JNull answering_service] by simp

text \<open>
  Claim C7, as stated, fails for a body that cannot be parsed: \<^verbatim>\<open>request.get_json()\<close> is
  called inside the \<^verbatim>\<open>try\<close> block, and when it raises (Flask's \<^verbatim>\<open>BadRequest\<close> below) the
  \<^verbatim>\<open>except Exception\<close> block answers with status 500, not with \<^verbatim>\<open>No data provided\<close>.
\<close>

theorem unparseable_body_counterexample:
  "fst (summarize
      (Inl ''400 Bad Request: The browser (or proxy) sent a request that this server could not understand.'')
      answering_service) =
     error_response
       (''An error occurred while generating the summary: '' @
        ''400 Bad Request: The browser (or proxy) sent a request that this server could not understand.'')
       500 \<and>
   fst (summarize
      (Inl ''400 Bad Request: The browser (or proxy) sent a request that this server could not understand.'')
      answering_service) \<noteq> error_response ''No data provided'' 400"
  by code_simp

text \<open>
  Claim C8, as amended. For every request whose body is a non-empty JSON object in which
  \<^verbatim>\<open>text\<close> is absent or is a string that trims to the empty string, and whose \<^verbatim>\<open>mode\<close> and
  \<^verbatim>\<open>length\<close> are absent or strings, the handler answers 400 with the error
  \<^verbatim>\<open>Text field is required\<close> and has no effect.
\<close>

theorem missing_text_is_rejected:
  assumes "kvs \<noteq> []"
    and "map_of kvs ''text'' = None \<or> (\<exists>t. map_of kvs ''text'' = Some (JStr t) \<and> strip t = [])"
    and "is_str (dict_get kvs ''mode'' (JStr ''paragraph''))"
    and "is_str (dict_get kvs ''length'' (JStr ''medium''))"
  shows "summarize (Inr (JObj kvs)) generate_content =
           (error_response ''Text field is required'' 400, [])"
proof -
  from assms(3,4) obtain m l
    where m: "dict_get kvs ''mode'' (JStr ''paragraph'') = JStr m"
      and l: "dict_get kvs ''length'' (JStr ''medium'') = JStr l"
    by (auto simp: is_str_iff)
  from assms(2) obtain t where t: "dict_get kvs ''text'' (JStr []) = JStr t" and e: "strip t = []"
    by (auto simp: dict_get_def strip_Nil)
  from assms(1) have data: "truthy (JObj kvs)"
    by simp
  have fields: "read_fields (JObj kvs) = Inr (strip t, lower m, lower l)"
    using t m l by (rule read_fields_strings)
  show ?thesis
    by (simp add: summarize_fields [OF data fields] e)
qed

theorem missing_text_is_rejected_witness:
  "summarize (Inr (JObj [(''mode'', JStr ''bullets'')])) answering_service =
     (error_response ''Text field is required'' 400, []) \<and>
   summarize (Inr (JObj [(''text'', JStr ''   '')])) answering_service =
     (error_response ''Text field is required'' 400, [])"
proof -
  have s: "strip ''   '' = []"
    by code_simp
  show ?thesis
    using missing_text_is_rejected [of "[(''mode'', JStr ''bullets'')]" answering_service]
      missing_text_is_rejected [of "[(''text'', JStr ''   '')]" answering_service] s
    by (simp add: dict_get_def)
qed

text \<open>
  Claim C8, as stated, fails: the empty object has no \<^verbatim>\<open>text\<close> field and is answered
  with \<^verbatim>\<open>No data provided\<close>, and an object without text whose \<^verbatim>\<open>mode\<close> is the number 5
  is answered with status 500.
\<close>

theorem missing_text_counterexample:
  "fst (summarize (Inr (JObj [])) answering_service) =
     error_response ''No data provided'' 400 \<and>
   fst (summarize (Inr (JObj [])) answering_service) \<noteq>
     error_response ''Text field is required'' 400 \<and>
   fst (summarize (Inr (JObj [(''mode'', JInt 5)])) answering_service) =
     error_response (''An error occurred while generating the summary: '' @
       attribute_error (JInt 5) ''lower'') 500 \<and>
   fst (summarize (Inr (JObj [(''mode'', JInt 5)])) answering_service) \<noteq>
     error_response ''Text field is required'' 400"
  by code_simp

text \<open>
  Claim C9. Two requests with the same \<^verbatim>\<open>text\<close> field, whose \<^verbatim>\<open>mode\<close> fields are the same
  or are strings that differ in case only, and likewise their \<^verbatim>\<open>length\<close> fields, get the
  same response with the same effects (the same prompt is built and sent): so
  \<^verbatim>\<open>mode="BULLETS"\<close> is treated as \<^verbatim>\<open>mode="bullets"\<close>.
\<close>

theorem mode_and_length_case_insensitive:
  assumes "map_of kvs1 ''text'' = map_of kvs2 ''text''"
    and "map_of kvs1 ''mode'' = map_of kvs2 ''mode'' \<or>
         (\<exists>m1 m2. map_of kvs1 ''mode'' = Some (JStr m1) \<and>
            map_of kvs2 ''mode'' = Some (JStr m2) \<and> lower m1 = lower m2)"
    and "map_of kvs1 ''length'' = map_of kvs2 ''length'' \<or>
         (\<exists>l1 l2. map_of kvs1 ''length'' = Some (JStr l1) \<and>
            map_of kvs2 ''length'' = Some (JStr l2) \<and> lower l1 = lower l2)"
    and "kvs1 = [] \<longleftrightarrow> kvs2 = []"
  shows "summarize (Inr (JObj kvs1)) generate_content =
         summarize (Inr (JObj kvs2)) generate_content"
proof -
  have "dict_get kvs1 ''text'' (JStr []) = dict_get kvs2 ''text'' (JStr [])"
    using assms(1) by (simp add: dict_get_def)
  then have "read_fields (JObj kvs1) = read_fields (JObj kvs2)"
    using py_lower_field [OF assms(2)] py_lower_field [OF assms(3)]
    by (simp add: read_fields_obj)
  then show ?thesis
    using assms(4) by (simp add: summarize_def summarize_try_def)
qed

theorem mode_and_length_case_insensitive_witness:
  "lower ''BULLETS'' = lower ''bullets'' \<and>
   summarize (Inr (JObj [(''text'', JStr fifty_chars), (''mode'', JStr ''BULLETS'')]))
     answering_service =
   summarize (Inr (JObj [(''text'', JStr fifty_chars), (''mode'', JStr ''bullets'')]))
     answering_service"
proof -
  have m: "lower ''BULLETS'' = lower ''bullets''"
    by code_simp
  show ?thesis
    using m mode_and_length_case_insensitive
      [of "[(''text'', JStr fifty_chars), (''mode'', JStr ''BULLETS'')]"
        "[(''text'', JStr fifty_chars), (''mode'', JStr ''bullets'')]" answering_service]
    by simp
qed

text \<open>
  Claim C10. If the body is a non-empty JSON object whose \<^verbatim>\<open>text\<close> is \<^verbatim>\<open>null\<close>, or whose
  \<^verbatim>\<open>mode\<close> or \<^verbatim>\<open>length\<close> is present and not a string, then \<^verbatim>\<open>.strip()\<close> or \<^verbatim>\<open>.lower()\<close>
  raises and the handler answers 500 through its \<^verbatim>\<open>except\<close> block, with the description
  of the exception in the error, and not with a 400 validation error.
\<close>

theorem non_string_field_gives_500:
  assumes "kvs \<noteq> []"
    and "map_of kvs ''text'' = Some JNull \<or>
         (\<exists>v. map_of kvs ''mode'' = Some v \<and> \<not> is_str v) \<or>
         (\<exists>v. map_of kvs ''length'' = Some v \<and> \<not> is_str v)"
  shows "\<exists>e. summarize (Inr (JObj kvs)) generate_content =
           (error_response (''An error occurred while generating the summary: '' @ e) 500,
            [Print (''Error in /summarize endpoint: '' @ e)])"
proof -
  from assms(2) have "\<not> is_str (dict_get kvs ''text'' (JStr [])) \<or>
      \<not> is_str (dict_get kvs ''mode'' (JStr ''paragraph'')) \<or>
      \<not> is_str (dict_get kvs ''length'' (JStr ''medium''))"
    by (auto simp: dict_get_def)
  then obtain e where "read_fields (JObj kvs) = Inl e"
    using read_fields_raises by blast
  moreover from assms(1) have "truthy (JObj kvs)"
    by simp
  ultimately show ?thesis
    using summarize_raises by blast
qed

theorem non_string_field_gives_500_witness:
  "snd (fst (summarize (Inr (JObj [(''text'', JNull)])) answering_service)) = 500 \<and>
   snd (fst (summarize (Inr (JObj [(''text'', JStr fifty_chars), (''mode'', JInt 5)]))
     answering_service)) = 500"
  using non_string_field_gives_500 [of "[(''text'', JNull)]" answering_service]
    non_string_field_gives_500 [of "[(''text'', JStr fifty_chars), (''mode'', JInt 5)]"
      answering_service]
  by (auto simp: error_response_def)

end
